theory Spec2Isabelle
  imports Main "HOL-Library.Sublist"
begin

section \<open>Coverage controllers of pytest-cov (engine.py)\<close>

text \<open>
  A shallow embedding of \<^verbatim>\<open>src/pytest_cov/engine.py\<close>: the controller base class
  \<^verbatim>\<open>CovController\<close> and its three variants \<^verbatim>\<open>Central\<close>, \<^verbatim>\<open>DistMaster\<close> and
  \<^verbatim>\<open>DistWorker\<close>. Mutation of \<^verbatim>\<open>self\<close>, of \<^verbatim>\<open>os.environ\<close> and of the sideband
  dictionaries is explicit state passing; every exception the module itself can raise
  (a missing attribute, a missing dictionary key) is a value of type \<open>error\<close>.
\<close>

subsection \<open>Python strings and formatting\<close>

text \<open>
  \<^verbatim>\<open>sep.join(xs)\<close>.
\<close>

fun join :: "string \<Rightarrow> string list \<Rightarrow> string" where
  "join sep [] = []"
| "join sep [x] = x"
| "join sep (x # y # ys) = x @ sep @ join sep (y # ys)"

text \<open>
  \<^verbatim>\<open>s.replace(old, new)\<close>: every occurrence of \<open>old\<close> is replaced, scanning from
  the left and continuing behind each replaced occurrence. With an empty \<open>old\<close>
  Python inserts \<open>new\<close> in front of every character and at the end.
\<close>

function py_replace :: "string \<Rightarrow> string \<Rightarrow> string \<Rightarrow> string" where
  "py_replace old new s =
     (if old = [] then new @ concat (map (\<lambda>c. c # new) s)
      else if prefix old s then new @ py_replace old new (drop (length old) s)
      else (case s of [] \<Rightarrow> [] | c # cs \<Rightarrow> c # py_replace old new cs))"
  by pat_completeness auto
termination
  by (relation "measure (\<lambda>(old, new, s). length s)") (auto simp: prefix_def)

declare py_replace.simps [simp del]

text \<open>
  \<^verbatim>\<open>s * n\<close> for a string \<open>s\<close> and an integer \<open>n\<close> (empty when \<open>n\<close> is not positive).
\<close>

definition py_mul :: "string \<Rightarrow> int \<Rightarrow> string" where
  "py_mul s n = concat (replicate (nat n) s)"

definition digit_char :: "nat \<Rightarrow> char" where
  "digit_char d = char_of (48 + d)"

text \<open>
  \<^verbatim>\<open>'%s' % n\<close> and \<^verbatim>\<open>'%d' % n\<close> for a non-negative integer: its decimal digits.
\<close>

fun str_nat :: "nat \<Rightarrow> string" where
  "str_nat n = (if n < 10 then [digit_char n] else str_nat (n div 10) @ [digit_char (n mod 10)])"

declare str_nat.simps [simp del]

text \<open>
  \<^verbatim>\<open>'%06d' % n\<close> for a non-negative integer: the digits, padded with zeros on the
  left to at least six characters.
\<close>

definition fmt_06d :: "nat \<Rightarrow> string" where
  "fmt_06d n = replicate (6 - length (str_nat n)) (CHR ''0'') @ str_nat n"

subsection \<open>Data model\<close>

datatype error = AttributeError | KeyError

text \<open>
  The values this module stores in a worker's output dictionary: \<^verbatim>\<open>None\<close> (the
  default \<^verbatim>\<open>nodeid\<close>) or a string. \<open>py_str\<close> is what \<^verbatim>\<open>'%s' % v\<close> renders.
\<close>

datatype sbval = SNone | SStr string

fun py_str :: "sbval \<Rightarrow> string" where
  "py_str SNone = ''None''"
| "py_str (SStr s) = s"

text \<open>
  The coverage engine is an external collaborator. A session object
  \<^verbatim>\<open>coverage.Coverage(...)\<close> is represented by its constructor arguments, the two
  configuration entries this module reads or writes (\<^verbatim>\<open>config.data_file\<close>,
  \<^verbatim>\<open>config.paths['source']\<close>) and the sequence of method calls made on it. The engine's
  own failures (an unreadable data file, say) are not modelled: every call returns.
\<close>

datatype suffix = NoSuffix | AutoSuffix | Suffix string

datatype cov_call = CStart | CStop | CErase | CLoad | CSave | CCombine
  | CUpdate sbval | CWriteFileobj

record coverage =
  cv_source :: "string list option"
  cv_branch :: bool
  cv_data_suffix :: suffix
  cv_config_file :: string
  cv_data_file :: string
  cv_paths_source :: "sbval list option"
  cv_calls :: "cov_call list"

type_synonym version_info = "nat \<times> nat \<times> nat \<times> string \<times> nat"

text \<open>
  What the module reads from its process and from the libraries it calls:
  \<^verbatim>\<open>socket.gethostname()\<close>, \<^verbatim>\<open>os.getpid()\<close>, \<^verbatim>\<open>os.getcwd()\<close>, \<^verbatim>\<open>os.pathsep\<close>,
  \<^verbatim>\<open>os.path.abspath\<close>, \<^verbatim>\<open>os.path.exists\<close>, \<^verbatim>\<open>sys.platform\<close>, \<^verbatim>\<open>sys.version_info\<close>,
  the data-file name the engine derives from a configuration file, and the text that
  \<^verbatim>\<open>cov.data.write_fileobj\<close> produces for a session.
\<close>

record world =
  w_hostname :: string
  w_pid :: nat
  w_getcwd :: string
  w_pathsep :: string
  w_abspath :: "string \<Rightarrow> string"
  w_exists :: "string \<Rightarrow> bool"
  w_platform :: string
  w_version_info :: version_info
  w_rc_data_file :: "string \<Rightarrow> string"
  w_dump :: "coverage \<Rightarrow> string"

text \<open>
  The orchestrator's objects. A worker's \<^verbatim>\<open>config\<close> carries the sideband input and
  output dictionaries (of the input only the two string entries the worker reads);
  the master's carries \<^verbatim>\<open>option.rsyncdir\<close>. A \<^verbatim>\<open>node\<close> as the master sees it on
  disconnect: the output dictionary if the attribute exists, the gateway's id and its
  remote info.
\<close>

record config_t =
  workerinput :: "string \<rightharpoonup> string"
  workeroutput :: "string \<rightharpoonup> sbval"
  rsyncdir :: "string list"

record node =
  node_workeroutput :: "(string \<rightharpoonup> sbval) option"
  gateway_id :: string
  rinfo_platform :: string
  rinfo_version_info :: version_info

text \<open>
  The controller object together with the process environment \<^verbatim>\<open>os.environ\<close> it
  mutates. \<open>is_collocated\<close> is \<open>None\<close> until \<^verbatim>\<open>DistWorker.start\<close> sets the
  attribute. \<open>worker_covs\<close> keeps the sessions that \<^verbatim>\<open>DistMaster.testnodedown\<close>
  creates locally and saves: each stands for one suffixed data file written.
  Report options and \<^verbatim>\<open>summary\<close> are not modelled.
\<close>

record controller =
  cov_source :: "string list option"
  cov_config :: string
  cov_append :: bool
  cov_branch :: bool
  config :: "config_t option"
  nodeid :: sbval
  cov :: "coverage option"
  combining_cov :: "coverage option"
  node_descs :: "string set"
  failed_workers :: "node list"
  topdir :: string
  is_collocated :: "bool option"
  environ :: "string \<rightharpoonup> string"
  worker_covs :: "coverage list"

datatype variant = Central | DistMaster | DistWorker

subsection \<open>The engine's session objects\<close>

definition Coverage ::
  "world \<Rightarrow> string list option \<Rightarrow> bool \<Rightarrow> suffix \<Rightarrow> string option \<Rightarrow> string \<Rightarrow> coverage" where
  "Coverage w source branch data_suffix data_file config_file =
     \<lparr>cv_source = source, cv_branch = branch, cv_data_suffix = data_suffix,
      cv_config_file = config_file,
      cv_data_file = (case data_file of Some f \<Rightarrow> f | None \<Rightarrow> w_rc_data_file w config_file),
      cv_paths_source = None, cv_calls = []\<rparr>"

definition call :: "cov_call \<Rightarrow> coverage \<Rightarrow> coverage" where
  "call m c = c\<lparr>cv_calls := cv_calls c @ [m]\<rparr>"

subsection \<open>CovController\<close>

definition init ::
  "world \<Rightarrow> string list option \<Rightarrow> string \<Rightarrow> bool \<Rightarrow> bool \<Rightarrow> config_t option \<Rightarrow> sbval \<Rightarrow>
   (string \<rightharpoonup> string) \<Rightarrow> controller" where
  "init w src cfgfile app br cfg nid env =
     \<lparr>cov_source = src, cov_config = cfgfile, cov_append = app, cov_branch = br,
      config = cfg, nodeid = nid, cov = None, combining_cov = None, node_descs = {},
      failed_workers = [], topdir = w_getcwd w, is_collocated = None, environ = env,
      worker_covs = []\<rparr>"

definition set_env :: "world \<Rightarrow> controller \<Rightarrow> error + controller" where
  "set_env w self =
     (let env1 = (environ self)(''COV_CORE_SOURCE'' \<mapsto>
                   (case cov_source self of None \<Rightarrow> w_pathsep w
                    | Some srcs \<Rightarrow> join (w_pathsep w) srcs));
          config_file = w_abspath w (cov_config self);
          env2 = env1(''COV_CORE_CONFIG'' \<mapsto>
                   (if w_exists w config_file then config_file else w_pathsep w))
      in case cov self of
           None \<Rightarrow> Inl AttributeError
         | Some c \<Rightarrow>
             let env3 = env2(''COV_CORE_DATAFILE'' \<mapsto> w_abspath w (cv_data_file c));
                 env4 = (if cov_branch self then env3(''COV_CORE_BRANCH'' \<mapsto> ''enabled'')
                         else env3)
             in Inr (self\<lparr>environ := env4\<rparr>))"

definition unset_env :: "controller \<Rightarrow> controller" where
  "unset_env self =
     self\<lparr>environ := (environ self)(''COV_CORE_SOURCE'' := None, ''COV_CORE_CONFIG'' := None,
                                    ''COV_CORE_DATAFILE'' := None, ''COV_CORE_BRANCH'' := None)\<rparr>"

definition pause :: "controller \<Rightarrow> error + controller" where
  "pause self =
     (case cov self of
        None \<Rightarrow> Inl AttributeError
      | Some c \<Rightarrow> Inr (unset_env (self\<lparr>cov := Some (call CStop c)\<rparr>)))"

definition resume :: "world \<Rightarrow> controller \<Rightarrow> error + controller" where
  "resume w self =
     (case cov self of
        None \<Rightarrow> Inl AttributeError
      | Some c \<Rightarrow> set_env w (self\<lparr>cov := Some (call CStart c)\<rparr>))"

definition get_node_desc :: "string \<Rightarrow> version_info \<Rightarrow> string" where
  "get_node_desc platform vi =
     (case vi of (major, minor, micro, level, serial) \<Rightarrow>
        ''platform '' @ platform @ '', python '' @
        str_nat major @ ''.'' @ str_nat minor @ ''.'' @ str_nat micro @ ''-'' @ level @ ''-'' @
        str_nat serial)"

text \<open>
  An output stream: whether it has a \<^verbatim>\<open>sep\<close> attribute, the calls made to it, and
  the strings written.
\<close>

record stream =
  has_sep :: bool
  sep_calls :: "(string \<times> string) list"
  written :: "string list"

definition sep :: "stream \<Rightarrow> string \<Rightarrow> string \<Rightarrow> stream" where
  "sep strm s txt =
     (if has_sep strm then strm\<lparr>sep_calls := sep_calls strm @ [(s, txt)]\<rparr>
      else
        let sep_total = max (70 - 2 - int (length txt)) 2;
            sep_len = sep_total div 2;
            sep_extra = sep_total mod 2;
            out = py_mul s sep_len @ '' '' @ txt @ '' '' @ py_mul s (sep_len + sep_extra) @
                  [CHR 0x0A]
        in strm\<lparr>written := written strm @ [out]\<rparr>)"

subsection \<open>Central\<close>

text \<open>
  \<^verbatim>\<open>cleanup()\<close> of the \<^verbatim>\<open>embed\<close> module touches none of the state modelled here and
  is left out of every \<^verbatim>\<open>start\<close>. In \<^verbatim>\<open>finish\<close> the assignment
  \<^verbatim>\<open>self.cov = self.combining_cov\<close> makes both attributes name one object, so both
  fields receive the calls that follow.
\<close>

definition Central_start :: "world \<Rightarrow> controller \<Rightarrow> error + controller" where
  "Central_start w self =
     (let c = Coverage w (cov_source self) (cov_branch self) NoSuffix None (cov_config self);
          cc = Coverage w (cov_source self) (cov_branch self) NoSuffix
                 (Some (w_abspath w (cv_data_file c))) (cov_config self);
          c = (if cov_append self then call CLoad c else call CErase c);
          c = call CStart c
      in set_env w (self\<lparr>cov := Some c, combining_cov := Some cc\<rparr>))"

definition Central_finish :: "world \<Rightarrow> controller \<Rightarrow> error + controller" where
  "Central_finish w self =
     (let self = unset_env self in
      case cov self of
        None \<Rightarrow> Inl AttributeError
      | Some c \<Rightarrow>
          let self = self\<lparr>cov := Some (call CSave (call CStop c))\<rparr> in
          (case combining_cov self of
             None \<Rightarrow> Inl AttributeError
           | Some cc \<Rightarrow>
               let cc = call CSave (call CCombine (call CLoad cc));
                   node_desc = get_node_desc (w_platform w) (w_version_info w)
               in Inr (self\<lparr>cov := Some cc, combining_cov := Some cc,
                             node_descs := insert node_desc (node_descs self)\<rparr>)))"

subsection \<open>DistMaster\<close>

definition DistMaster_start :: "world \<Rightarrow> controller \<Rightarrow> error + controller" where
  "DistMaster_start w self =
     (case (if cov_config self \<noteq> [] \<and> w_exists w (cov_config self)
            then (case config self of
                    None \<Rightarrow> Inl AttributeError
                  | Some cfg \<Rightarrow>
                      Inr (self\<lparr>config := Some (cfg\<lparr>rsyncdir := rsyncdir cfg @ [cov_config self]\<rparr>)\<rparr>))
            else Inr self) of
        Inl e \<Rightarrow> Inl e
      | Inr self \<Rightarrow>
          let c = Coverage w (cov_source self) (cov_branch self) NoSuffix None (cov_config self);
              cc = Coverage w (cov_source self) (cov_branch self) NoSuffix
                     (Some (w_abspath w (cv_data_file c))) (cov_config self);
              c = (if cov_append self then call CLoad c else call CErase c);
              c = call CStart c;
              c = c\<lparr>cv_paths_source := Some [SStr (topdir self)]\<rparr>
          in Inr (self\<lparr>cov := Some c, combining_cov := Some cc\<rparr>))"

text \<open>
  \<^verbatim>\<open>workeroutput(node, {})\<close> of the \<^verbatim>\<open>compat\<close> module: the node's output dictionary,
  or the default when the node has no such attribute.
\<close>

definition workeroutput_or :: "node \<Rightarrow> (string \<rightharpoonup> sbval) \<Rightarrow> (string \<rightharpoonup> sbval)" where
  "workeroutput_or nd dflt = (case node_workeroutput nd of None \<Rightarrow> dflt | Some out \<Rightarrow> out)"

text \<open>
  \<^verbatim>\<open>'%s.%s.%06d.%s' % (hostname, pid, rnd, node_id)\<close>.
\<close>

definition data_suffix :: "string \<Rightarrow> nat \<Rightarrow> nat \<Rightarrow> sbval \<Rightarrow> string" where
  "data_suffix host p rnd node_id =
     host @ ''.'' @ str_nat p @ ''.'' @ fmt_06d rnd @ ''.'' @ py_str node_id"

text \<open>
  \<open>rnd\<close> is the value \<^verbatim>\<open>random.randint(0, 999999)\<close> returns when it is called.
\<close>

definition testnodedown :: "world \<Rightarrow> nat \<Rightarrow> controller \<Rightarrow> node \<Rightarrow> error + controller" where
  "testnodedown w rnd self nd =
     (let output = workeroutput_or nd Map.empty in
      case output ''cov_worker_node_id'' of
        None \<Rightarrow> Inr (self\<lparr>failed_workers := failed_workers self @ [nd]\<rparr>)
      | Some node_id \<Rightarrow>
          (case (case output ''cov_worker_data'' of
                   None \<Rightarrow> Inr self
                 | Some payload \<Rightarrow>
                     let sfx = data_suffix (w_hostname w) (w_pid w) rnd node_id;
                         c = Coverage w (cov_source self) (cov_branch self) (Suffix sfx) None
                               (cov_config self);
                         c = call CSave (call CStop (call (CUpdate payload) (call CStart c)));
                         self = self\<lparr>worker_covs := worker_covs self @ [c]\<rparr>
                     in (case output ''cov_worker_path'' of
                           None \<Rightarrow> Inl KeyError
                         | Some path \<Rightarrow>
                             (case cov self of
                                None \<Rightarrow> Inl AttributeError
                              | Some sc \<Rightarrow>
                                  (case cv_paths_source sc of
                                     None \<Rightarrow> Inl KeyError
                                   | Some ps \<Rightarrow>
                                       Inr (self\<lparr>cov := Some
                                              (sc\<lparr>cv_paths_source := Some (ps @ [path])\<rparr>)\<rparr>))))) of
             Inl e \<Rightarrow> Inl e
           | Inr self \<Rightarrow>
               let node_desc = get_node_desc (rinfo_platform nd) (rinfo_version_info nd)
               in Inr (self\<lparr>node_descs := insert node_desc (node_descs self)\<rparr>)))"

definition DistMaster_finish :: "controller \<Rightarrow> error + controller" where
  "DistMaster_finish self =
     (case cov self of
        None \<Rightarrow> Inl AttributeError
      | Some c \<Rightarrow>
          let self = self\<lparr>cov := Some (call CSave (call CStop c))\<rparr> in
          (case combining_cov self of
             None \<Rightarrow> Inl AttributeError
           | Some cc \<Rightarrow>
               let cc = call CSave (call CCombine (call CLoad cc))
               in Inr (self\<lparr>cov := Some cc, combining_cov := Some cc\<rparr>)))"

subsection \<open>DistWorker\<close>

text \<open>
  The first \<open>case\<close> is the conjunction that decides collocation: Python's \<^verbatim>\<open>and\<close>
  reads \<^verbatim>\<open>cov_master_topdir\<close> only when the hostnames are equal.
\<close>

definition DistWorker_start :: "world \<Rightarrow> controller \<Rightarrow> error + controller" where
  "DistWorker_start w self =
     (case config self of
        None \<Rightarrow> Inl AttributeError
      | Some cfg \<Rightarrow>
          (case workerinput cfg ''cov_master_host'' of
             None \<Rightarrow> Inl KeyError
           | Some master_host \<Rightarrow>
               (case (if w_hostname w = master_host
                      then (case workerinput cfg ''cov_master_topdir'' of
                              None \<Rightarrow> Inl KeyError
                            | Some mt \<Rightarrow> Inr (topdir self = mt))
                      else Inr False) of
                  Inl e \<Rightarrow> Inl e
                | Inr colloc \<Rightarrow>
                    let self = self\<lparr>is_collocated := Some colloc\<rparr> in
                    (case (if \<not> colloc
                           then (case workerinput cfg ''cov_master_topdir'' of
                                   None \<Rightarrow> Inl KeyError
                                 | Some master_topdir \<Rightarrow>
                                     let worker_topdir = topdir self in
                                     Inr (self\<lparr>cov_source :=
                                                 map_option (map (py_replace master_topdir worker_topdir))
                                                   (cov_source self),
                                               cov_config :=
                                                 py_replace master_topdir worker_topdir (cov_config self)\<rparr>))
                           else Inr self) of
                       Inl e \<Rightarrow> Inl e
                     | Inr self \<Rightarrow>
                         let c = Coverage w (cov_source self) (cov_branch self) AutoSuffix None
                                   (cov_config self);
                             c = (if cov_append self then call CLoad c else call CErase c);
                             c = call CStart c
                         in set_env w (self\<lparr>cov := Some c\<rparr>)))))"

definition DistWorker_finish :: "world \<Rightarrow> controller \<Rightarrow> error + controller" where
  "DistWorker_finish w self =
     (let self = unset_env self in
      case cov self of
        None \<Rightarrow> Inl AttributeError
      | Some c \<Rightarrow>
          let c = call CStop c in
          (case is_collocated self of
             None \<Rightarrow> Inl AttributeError
           | Some colloc \<Rightarrow>
               (case config self of
                  None \<Rightarrow> Inl AttributeError
                | Some cfg \<Rightarrow>
                    if colloc
                    then
                      let c = call CSave c;
                          out = (workeroutput cfg)(''cov_worker_node_id'' \<mapsto> nodeid self)
                      in Inr (self\<lparr>cov := Some c, config := Some (cfg\<lparr>workeroutput := out\<rparr>)\<rparr>)
                    else
                      let c = call CSave (call CCombine c);
                          c = call CWriteFileobj c;
                          buff = w_dump w c;
                          out = (workeroutput cfg)(''cov_worker_path'' \<mapsto> SStr (topdir self),
                                                   ''cov_worker_node_id'' \<mapsto> nodeid self,
                                                   ''cov_worker_data'' \<mapsto> SStr buff)
                      in Inr (self\<lparr>cov := Some c, config := Some (cfg\<lparr>workeroutput := out\<rparr>)\<rparr>))))"

subsection \<open>Dispatch on the variant\<close>

definition start :: "variant \<Rightarrow> world \<Rightarrow> controller \<Rightarrow> error + controller" where
  "start v w self =
     (case v of Central \<Rightarrow> Central_start w self
      | DistMaster \<Rightarrow> DistMaster_start w self
      | DistWorker \<Rightarrow> DistWorker_start w self)"

definition finish :: "variant \<Rightarrow> world \<Rightarrow> controller \<Rightarrow> error + controller" where
  "finish v w self =
     (case v of Central \<Rightarrow> Central_finish w self
      | DistMaster \<Rightarrow> DistMaster_finish self
      | DistWorker \<Rightarrow> DistWorker_finish w self)"

subsection \<open>Call sequences\<close>


text \<open>
  The master handling a sequence of worker disconnects, each with the random number
  drawn for it, and a whole master run: \<^verbatim>\<open>start\<close>, the disconnects, \<^verbatim>\<open>finish\<close>.
\<close>

fun testnodesdown :: "world \<Rightarrow> controller \<Rightarrow> (nat \<times> node) list \<Rightarrow> error + controller" where
  "testnodesdown w self [] = Inr self"
| "testnodesdown w self ((rnd, nd) # rest) =
     (case testnodedown w rnd self nd of
        Inl e \<Rightarrow> Inl e
      | Inr self' \<Rightarrow> testnodesdown w self' rest)"

definition master_run :: "world \<Rightarrow> controller \<Rightarrow> (nat \<times> node) list \<Rightarrow> error + controller" where
  "master_run w self downs =
     (case DistMaster_start w self of
        Inl e \<Rightarrow> Inl e
      | Inr s1 \<Rightarrow>
          (case testnodesdown w s1 downs of
             Inl e \<Rightarrow> Inl e
           | Inr s2 \<Rightarrow> DistMaster_finish s2))"

subsection \<open>Concrete processes and nodes\<close>

text \<open>
  A master process on host \<open>A\<close> in directory \<open>/m\<close> and a worker process on host \<open>B\<close>
  in directory \<open>/w\<close>, with a configuration file present on the master only.
\<close>

definition ex_abspath :: "string \<Rightarrow> string \<Rightarrow> string" where
  "ex_abspath cwd p =
     (case p of [] \<Rightarrow> cwd | c # cs \<Rightarrow> if c = CHR ''/'' then p else cwd @ ''/'' @ p)"

definition ex_world :: world where
  "ex_world = \<lparr>w_hostname = ''A'', w_pid = 4242, w_getcwd = ''/m'', w_pathsep = '':'',
     w_abspath = ex_abspath ''/m'', w_exists = (\<lambda>p. p = ''/m/.coveragerc''),
     w_platform = ''linux'', w_version_info = (3, 6, 5, ''final'', 0),
     w_rc_data_file = (\<lambda>f. ''.coverage''), w_dump = (\<lambda>c. ''DATA'')\<rparr>"

definition ex_worker_world :: world where
  "ex_worker_world = ex_world\<lparr>w_hostname := ''B'', w_pid := 4243, w_getcwd := ''/w'',
     w_abspath := ex_abspath ''/w'', w_exists := (\<lambda>p. False), w_platform := ''darwin''\<rparr>"

definition ex_input :: "string \<rightharpoonup> string" where
  "ex_input = [''cov_master_host'' \<mapsto> ''A'', ''cov_master_topdir'' \<mapsto> ''/m'']"

definition ex_config :: config_t where
  "ex_config = \<lparr>workerinput = ex_input, workeroutput = Map.empty, rsyncdir = []\<rparr>"

definition ex_central :: controller where
  "ex_central = init ex_world (Some [''/m/pkg'', ''/m/lib'']) ''.coveragerc'' False True None SNone
     Map.empty"

definition ex_master :: controller where
  "ex_master = init ex_world (Some [''/m/pkg'']) ''.coveragerc'' False False (Some ex_config) SNone
     Map.empty"

definition ex_worker :: controller where
  "ex_worker = init ex_worker_world (Some [''/m/pkg'', ''/x/m/pkg'', ''/m/m/pkg''])
     ''/m/.coveragerc'' False False
     (Some ex_config) (SStr ''gw1'') Map.empty"

definition ex_collocated_worker :: controller where
  "ex_collocated_worker = init ex_world (Some [''/m/pkg'']) ''/m/.coveragerc'' False False
     (Some ex_config) (SStr ''gw0'') Map.empty"

definition ex_central_started :: controller where
  "ex_central_started = projr (start Central ex_world ex_central)"

definition ex_central_finished :: controller where
  "ex_central_finished = projr (finish Central ex_world ex_central_started)"

definition ex_central_paused :: controller where
  "ex_central_paused = projr (pause ex_central_started)"

definition ex_master_started :: controller where
  "ex_master_started = projr (start DistMaster ex_world ex_master)"

definition ex_master_paused :: controller where
  "ex_master_paused = projr (pause ex_master_started)"

definition ex_master_resumed :: controller where
  "ex_master_resumed = projr (resume ex_world ex_master_paused)"

definition ex_master_finished :: controller where
  "ex_master_finished = projr (finish DistMaster ex_world ex_master_resumed)"

definition ex_worker_started :: controller where
  "ex_worker_started = projr (start DistWorker ex_worker_world ex_worker)"

definition ex_node1 :: node where
  "ex_node1 = \<lparr>node_workeroutput = Some [''cov_worker_node_id'' \<mapsto> SStr ''gw0''],
     gateway_id = ''gw0'', rinfo_platform = ''linux'',
     rinfo_version_info = (3, 6, 5, ''final'', 0)\<rparr>"

definition ex_node2 :: node where
  "ex_node2 = \<lparr>node_workeroutput = Some [''cov_worker_path'' \<mapsto> SStr ''/w'',
       ''cov_worker_node_id'' \<mapsto> SStr ''gw1'', ''cov_worker_data'' \<mapsto> SStr ''DATA''],
     gateway_id = ''gw1'', rinfo_platform = ''darwin'',
     rinfo_version_info = (3, 6, 5, ''final'', 0)\<rparr>"

definition ex_failed_node :: node where
  "ex_failed_node = \<lparr>node_workeroutput = None, gateway_id = ''gw2'', rinfo_platform = ''linux'',
     rinfo_version_info = (3, 6, 5, ''final'', 0)\<rparr>"

definition ex_stream :: stream where
  "ex_stream = \<lparr>has_sep = False, sep_calls = [], written = []\<rparr>"

definition ex_collocated_started :: controller where
  "ex_collocated_started = projr (start DistWorker ex_world ex_collocated_worker)"

text \<open>
  A controller with its session, branch coverage off, in a process whose environment
  already holds \<^verbatim>\<open>COV_CORE_BRANCH\<close> (inherited from a parent run with branch coverage).
\<close>

definition ex_inherited :: controller where
  "ex_inherited =
     (init ex_world (Some [''/m/pkg'']) ''.coveragerc'' False False None SNone
        [''COV_CORE_BRANCH'' \<mapsto> ''enabled''])
       \<lparr>cov := Some (call CStart (call CErase
          (Coverage ex_world (Some [''/m/pkg'']) False NoSuffix None ''.coveragerc'')))\<rparr>"

definition ex_inherited_set :: controller where
  "ex_inherited_set = projr (set_env ex_world ex_inherited)"

text \<open>
  A collocated worker's node on another platform than the master's, and three master
  runs: with no worker, with the remote worker only, with that node and the remote
  worker.
\<close>

definition ex_node3 :: node where
  "ex_node3 = \<lparr>node_workeroutput = Some [''cov_worker_node_id'' \<mapsto> SStr ''gw3''],
     gateway_id = ''gw3'', rinfo_platform = ''win32'',
     rinfo_version_info = (3, 6, 5, ''final'', 0)\<rparr>"

definition ex_run_alone :: controller where
  "ex_run_alone = projr (master_run ex_world ex_master [])"

definition ex_run_remote :: controller where
  "ex_run_remote = projr (master_run ex_world ex_master [(42, ex_node2)])"

definition ex_run_other :: controller where
  "ex_run_other = projr (master_run ex_world ex_master [(7, ex_node3), (42, ex_node2)])"

text \<open>
  The sessions these processes hold: of the paused central controller, of the two
  started workers and of the started master.
\<close>

definition ex_central_cov :: coverage where
  "ex_central_cov = call CStop (call CStart (call CErase
     (Coverage ex_world (Some [''/m/pkg'', ''/m/lib'']) True NoSuffix None ''.coveragerc'')))"

definition ex_worker_cov :: coverage where
  "ex_worker_cov = call CStart (call CErase
     (Coverage ex_worker_world (Some [''/w/pkg'', ''/x/w/pkg'', ''/w/w/pkg'']) False AutoSuffix None
        ''/w/.coveragerc''))"

definition ex_collocated_cov :: coverage where
  "ex_collocated_cov = call CStart (call CErase
     (Coverage ex_world (Some [''/m/pkg'']) False AutoSuffix None ''/m/.coveragerc''))"

definition ex_master_cov :: coverage where
  "ex_master_cov = (call CStart (call CErase
     (Coverage ex_world (Some [''/m/pkg'']) False NoSuffix None ''.coveragerc'')))
       \<lparr>cv_paths_source := Some [SStr ''/m'']\<rparr>"

subsection \<open>The populated Environment Channel\<close>


section \<open>Properties\<close>

subsection \<open>Evaluating the concrete processes\<close>

lemmas ex_defs = ex_central_def ex_master_def ex_worker_def ex_collocated_worker_def init_def
  ex_config_def ex_input_def ex_worker_world_def ex_world_def ex_abspath_def
  ex_central_cov_def ex_worker_cov_def ex_collocated_cov_def ex_master_cov_def

lemmas op_defs = start_def finish_def Central_start_def Central_finish_def DistMaster_start_def
  DistMaster_finish_def DistWorker_start_def pause_def resume_def set_env_def unset_env_def
  Coverage_def call_def Let_def

lemma replace_pkg: "py_replace ''/m'' ''/w'' ''/m/pkg'' = ''/w/pkg''"
  by code_simp

lemma replace_inner: "py_replace ''/m'' ''/w'' ''/x/m/pkg'' = ''/x/w/pkg''"
  by code_simp

lemma replace_twice: "py_replace ''/m'' ''/w'' ''/m/m/pkg'' = ''/w/w/pkg''"
  by code_simp

lemma replace_rc: "py_replace ''/m'' ''/w'' ''/m/.coveragerc'' = ''/w/.coveragerc''"
  by code_simp

lemma ex_descs:
  "get_node_desc ''linux'' (3, 6, 5, ''final'', 0) = ''platform linux, python 3.6.5-final-0''"
  "get_node_desc ''darwin'' (3, 6, 5, ''final'', 0) = ''platform darwin, python 3.6.5-final-0''"
  "get_node_desc ''win32'' (3, 6, 5, ''final'', 0) = ''platform win32, python 3.6.5-final-0''"
  by code_simp+

lemma ex_suffixes:
  "data_suffix ''A'' 4242 42 (SStr ''gw0'') = ''A.4242.000042.gw0''"
  "data_suffix ''A'' 4242 42 (SStr ''gw1'') = ''A.4242.000042.gw1''"
  "fmt_06d 42 = ''000042''"
  "str_nat 4242 = ''4242''"
  "str_nat 42 = ''42''"
  by code_simp+

lemma ex_central_trace:
  "start Central ex_world ex_central = Inr ex_central_started"
  "finish Central ex_world ex_central_started = Inr ex_central_finished"
  "pause ex_central_started = Inr ex_central_paused"
  by (simp_all add: ex_central_started_def ex_central_finished_def ex_central_paused_def
      op_defs ex_defs)

lemma ex_central_started_env:
  "environ ex_central_started ''COV_CORE_SOURCE'' = Some ''/m/pkg:/m/lib''"
  "environ ex_central_started ''COV_CORE_CONFIG'' = Some ''/m/.coveragerc''"
  "environ ex_central_started ''COV_CORE_DATAFILE'' = Some ''/m/.coverage''"
  "environ ex_central_started ''COV_CORE_BRANCH'' = Some ''enabled''"
  by (simp_all add: ex_central_started_def op_defs ex_defs)

lemma ex_central_paused_state:
  "cov ex_central_paused = Some ex_central_cov"
  "cv_data_file ex_central_cov = ''.coverage''"
  "cov_source ex_central_paused = Some [''/m/pkg'', ''/m/lib'']"
  "cov_config ex_central_paused = ''.coveragerc''"
  "cov_branch ex_central_paused"
  "environ ex_central_paused = Map.empty"
  by (simp_all add: ex_central_paused_def ex_central_started_def op_defs ex_defs)

lemma ex_master_trace:
  "start DistMaster ex_world ex_master = Inr ex_master_started"
  "pause ex_master_started = Inr ex_master_paused"
  "resume ex_world ex_master_paused = Inr ex_master_resumed"
  "finish DistMaster ex_world ex_master_resumed = Inr ex_master_finished"
  by (simp_all add: ex_master_started_def ex_master_paused_def ex_master_resumed_def
      ex_master_finished_def op_defs ex_defs)

lemma ex_master_env:
  "environ ex_master_started = Map.empty"
  "environ ex_master_resumed ''COV_CORE_SOURCE'' = Some ''/m/pkg''"
  "environ ex_master_finished ''COV_CORE_SOURCE'' = Some ''/m/pkg''"
  by (simp_all add: ex_master_started_def ex_master_paused_def ex_master_resumed_def
      ex_master_finished_def op_defs ex_defs)

lemma ex_master_started_state:
  "cov ex_master_started = Some ex_master_cov"
  "cv_paths_source ex_master_cov = Some [SStr ''/m'']"
  "worker_covs ex_master_started = []"
  by (simp_all add: ex_master_started_def op_defs ex_defs)

lemma ex_worker_start:
  "start DistWorker ex_worker_world ex_worker = Inr ex_worker_started"
  by (simp add: ex_worker_started_def op_defs ex_defs)

lemma ex_worker_fields:
  "topdir ex_worker = ''/w''"
  "cov_source ex_worker = Some [''/m/pkg'', ''/x/m/pkg'', ''/m/m/pkg'']"
  "cov_config ex_worker = ''/m/.coveragerc''"
  by (simp_all add: ex_defs)

lemma ex_worker_started_state:
  "is_collocated ex_worker_started = Some False"
  "cov_source ex_worker_started = Some [''/w/pkg'', ''/x/w/pkg'', ''/w/w/pkg'']"
  "cov_config ex_worker_started = ''/w/.coveragerc''"
  "config ex_worker_started = Some ex_config"
  "cov ex_worker_started = Some ex_worker_cov"
  "cv_calls ex_worker_cov = [CErase, CStart]"
  "nodeid ex_worker_started = SStr ''gw1''"
  "topdir ex_worker_started = ''/w''"
  by (simp_all add: ex_worker_started_def op_defs ex_defs replace_pkg replace_inner replace_twice
      replace_rc)

lemma ex_collocated_started_state:
  "is_collocated ex_collocated_started = Some True"
  "config ex_collocated_started = Some ex_config"
  "cov ex_collocated_started = Some ex_collocated_cov"
  "cv_calls ex_collocated_cov = [CErase, CStart]"
  "nodeid ex_collocated_started = SStr ''gw0''"
  by (simp_all add: ex_collocated_started_def op_defs ex_defs)

subsection \<open>Collocation\<close>

text \<open>
  Claim C1. When a worker starts with both sideband entries present, \<^verbatim>\<open>start\<close>
  returns and \<^verbatim>\<open>is_collocated\<close> is true exactly when the worker's hostname equals
  \<^verbatim>\<open>cov_master_host\<close> and the worker's top directory equals \<^verbatim>\<open>cov_master_topdir\<close>;
  if either differs it is false.
\<close>

theorem DistWorker_start_collocated:
  assumes "config self = Some cfg"
    and "workerinput cfg ''cov_master_host'' = Some master_host"
    and "workerinput cfg ''cov_master_topdir'' = Some master_topdir"
  shows "\<exists>self'. DistWorker_start w self = Inr self' \<and>
           is_collocated self' = Some (w_hostname w = master_host \<and> topdir self = master_topdir)"
  using assms by (auto simp: DistWorker_start_def set_env_def Let_def)

theorem DistWorker_start_collocated_witness:
  "(\<exists>self'. DistWorker_start ex_worker_world ex_worker = Inr self' \<and>
      is_collocated self' = Some False) \<and>
   (\<exists>self'. DistWorker_start ex_world ex_collocated_worker = Inr self' \<and>
      is_collocated self' = Some True)"
  using DistWorker_start_collocated [of ex_worker ex_config "''A''" "''/m''" ex_worker_world]
    DistWorker_start_collocated [of ex_collocated_worker ex_config "''A''" "''/m''" ex_world]
  by (simp add: ex_defs)

subsection \<open>Path rewriting\<close>

lemma py_replace_no_occurrence: "\<not> sublist old s \<Longrightarrow> py_replace old new s = s"
proof (induction old new s rule: py_replace.induct)
  case (1 old new s)
  from "1.prems" have ne: "old \<noteq> []" by auto
  from "1.prems" have np: "\<not> prefix old s" by (auto simp: prefix_def sublist_def)
  show ?case
  proof (cases s)
    case Nil
    then show ?thesis using ne np by (subst py_replace.simps) simp
  next
    case (Cons c cs)
    then have "\<not> sublist old cs" using "1.prems" by (simp add: sublist_Cons_right)
    then have "py_replace old new cs = cs" using "1.IH"(2) ne np Cons by simp
    then show ?thesis using ne np Cons by (subst py_replace.simps) simp
  qed
qed

lemma py_replace_prefix:
  "old \<noteq> [] \<Longrightarrow> py_replace old new (old @ rest) = new @ py_replace old new rest"
  by (subst py_replace.simps) simp

text \<open>
  What \<^verbatim>\<open>start\<close> does to the paths of a worker that is not collocated: every source
  root and the config-file path go through \<open>py_replace\<close>. A path in which the master's
  top directory does not occur is returned as it is; behind a leading occurrence the
  replacement goes on through the rest of the path.
\<close>

lemma DistWorker_start_rewrite:
  assumes "config self = Some cfg"
    and "workerinput cfg ''cov_master_host'' = Some master_host"
    and "workerinput cfg ''cov_master_topdir'' = Some master_topdir"
    and "\<not> (w_hostname w = master_host \<and> topdir self = master_topdir)"
  shows "\<exists>self'. DistWorker_start w self = Inr self' \<and>
            cov_source self' =
              map_option (map (py_replace master_topdir (topdir self))) (cov_source self) \<and>
            cov_config self' = py_replace master_topdir (topdir self) (cov_config self)"
  using assms by (auto simp: DistWorker_start_def set_env_def Let_def)

text \<open>
  Claim C2. The worker on host \<open>B\<close> in \<open>/w\<close> is not collocated with the master on
  host \<open>A\<close> in \<open>/m\<close>. Its \<^verbatim>\<open>start\<close> rewrites the source root \<open>/m/pkg\<close> to
  \<open>/w/pkg\<close> and the config-file path \<open>/m/.coveragerc\<close> to \<open>/w/.coveragerc\<close>, as
  the claim says. It also rewrites \<open>/x/m/pkg\<close>, which is not prefixed by the master's
  top directory, to \<open>/x/w/pkg\<close>, and \<open>/m/m/pkg\<close>, which is prefixed by it, to
  \<open>/w/w/pkg\<close> instead of \<open>/w/m/pkg\<close>: \<^verbatim>\<open>str.replace\<close> replaces every occurrence
  of the master's top directory, not the prefix alone.
\<close>

theorem rewrite_replaces_every_occurrence:
  "start DistWorker ex_worker_world ex_worker = Inr ex_worker_started \<and>
   is_collocated ex_worker_started = Some False \<and>
   workerinput ex_config ''cov_master_topdir'' = Some ''/m'' \<and>
   topdir ex_worker = ''/w'' \<and>
   cov_source ex_worker = Some [''/m/pkg'', ''/x/m/pkg'', ''/m/m/pkg''] \<and>
   cov_config ex_worker = ''/m/.coveragerc'' \<and>
   \<not> prefix ''/m'' ''/x/m/pkg'' \<and>
   prefix ''/m'' ''/m/m/pkg'' \<and>
   cov_source ex_worker_started = Some [''/w/pkg'', ''/x/w/pkg'', ''/w/w/pkg''] \<and>
   cov_config ex_worker_started = ''/w/.coveragerc''"
  by (simp add: ex_worker_start ex_worker_started_state ex_worker_fields ex_config_def
      ex_input_def)

subsection \<open>The Environment Channel\<close>

text \<open>
  Claim C3 as stated fails for the master. A master that was started, paused and
  resumed has the variables in its environment (\<^verbatim>\<open>resume\<close> writes them), and
  \<^verbatim>\<open>DistMaster.finish\<close>, which never calls \<^verbatim>\<open>unset_env\<close>, returns with
  \<^verbatim>\<open>COV_CORE_SOURCE\<close> still present.
\<close>

theorem master_finish_keeps_env_counterexample:
  "start DistMaster ex_world ex_master = Inr ex_master_started \<and>
   pause ex_master_started = Inr ex_master_paused \<and>
   resume ex_world ex_master_paused = Inr ex_master_resumed \<and>
   finish DistMaster ex_world ex_master_resumed = Inr ex_master_finished \<and>
   environ ex_master_finished ''COV_CORE_SOURCE'' = Some ''/m/pkg''"
  by (simp add: ex_master_trace ex_master_env)

text \<open>
  Claim C3, amended. After \<^verbatim>\<open>finish\<close> of a Central or DistWorker controller returns,
  none of \<^verbatim>\<open>COV_CORE_SOURCE\<close>, \<^verbatim>\<open>COV_CORE_CONFIG\<close>, \<^verbatim>\<open>COV_CORE_DATAFILE\<close>,
  \<^verbatim>\<open>COV_CORE_BRANCH\<close> is present in the environment, and likewise after \<^verbatim>\<open>pause\<close> of
  any controller; \<^verbatim>\<open>DistMaster.finish\<close> leaves the environment as it found it.
\<close>

theorem finish_unsets_env:
  "(v \<noteq> DistMaster \<longrightarrow> finish v w self = Inr self' \<longrightarrow>
      environ self' ''COV_CORE_SOURCE'' = None \<and> environ self' ''COV_CORE_CONFIG'' = None \<and>
      environ self' ''COV_CORE_DATAFILE'' = None \<and> environ self' ''COV_CORE_BRANCH'' = None) \<and>
   (finish DistMaster w m = Inr m' \<longrightarrow> environ m' = environ m) \<and>
   (pause p = Inr p' \<longrightarrow>
      environ p' ''COV_CORE_SOURCE'' = None \<and> environ p' ''COV_CORE_CONFIG'' = None \<and>
      environ p' ''COV_CORE_DATAFILE'' = None \<and> environ p' ''COV_CORE_BRANCH'' = None)"
proof -
  have central: "Central_finish w self = Inr self' \<Longrightarrow>
      environ self' ''COV_CORE_SOURCE'' = None \<and> environ self' ''COV_CORE_CONFIG'' = None \<and>
      environ self' ''COV_CORE_DATAFILE'' = None \<and> environ self' ''COV_CORE_BRANCH'' = None"
    by (auto simp: Central_finish_def unset_env_def Let_def split: option.splits)
  have worker: "DistWorker_finish w self = Inr self' \<Longrightarrow>
      environ self' ''COV_CORE_SOURCE'' = None \<and> environ self' ''COV_CORE_CONFIG'' = None \<and>
      environ self' ''COV_CORE_DATAFILE'' = None \<and> environ self' ''COV_CORE_BRANCH'' = None"
    by (auto simp: DistWorker_finish_def unset_env_def Let_def split: option.splits if_splits)
  have master: "DistMaster_finish m = Inr m' \<Longrightarrow> environ m' = environ m"
    by (auto simp: DistMaster_finish_def Let_def split: option.splits)
  have paused: "pause p = Inr p' \<Longrightarrow>
      environ p' ''COV_CORE_SOURCE'' = None \<and> environ p' ''COV_CORE_CONFIG'' = None \<and>
      environ p' ''COV_CORE_DATAFILE'' = None \<and> environ p' ''COV_CORE_BRANCH'' = None"
    by (auto simp: pause_def unset_env_def split: option.splits)
  show ?thesis
    using central worker master paused by (cases v) (simp_all add: finish_def)
qed

theorem finish_unsets_env_witness:
  "finish Central ex_world ex_central_started = Inr ex_central_finished \<and>
   environ ex_central_started ''COV_CORE_SOURCE'' = Some ''/m/pkg:/m/lib'' \<and>
   environ ex_central_finished ''COV_CORE_SOURCE'' = None \<and>
   environ ex_central_finished ''COV_CORE_CONFIG'' = None \<and>
   environ ex_central_finished ''COV_CORE_DATAFILE'' = None \<and>
   environ ex_central_finished ''COV_CORE_BRANCH'' = None \<and>
   finish DistMaster ex_world ex_master_resumed = Inr ex_master_finished \<and>
   environ ex_master_finished = environ ex_master_resumed \<and>
   pause ex_central_started = Inr ex_central_paused \<and>
   environ ex_central_paused ''COV_CORE_SOURCE'' = None \<and>
   environ ex_central_paused ''COV_CORE_CONFIG'' = None \<and>
   environ ex_central_paused ''COV_CORE_DATAFILE'' = None \<and>
   environ ex_central_paused ''COV_CORE_BRANCH'' = None"
  using finish_unsets_env [of Central ex_world ex_central_started ex_central_finished
      ex_master_resumed ex_master_finished ex_central_started ex_central_paused]
  by (simp add: ex_central_trace ex_master_trace ex_central_started_env)

text \<open>
  What \<^verbatim>\<open>set_env\<close> writes for a controller with a session: \<^verbatim>\<open>COV_CORE_SOURCE\<close> is
  the path-separator-join of the source roots, or a lone separator when the source
  list is \<^verbatim>\<open>None\<close>; \<^verbatim>\<open>COV_CORE_CONFIG\<close> is the absolute config-file path when that
  file exists and a lone separator otherwise; \<^verbatim>\<open>COV_CORE_DATAFILE\<close> is the absolute
  data-file path; \<^verbatim>\<open>COV_CORE_BRANCH\<close> becomes \<open>enabled\<close> when branch coverage is on
  and keeps whatever it held when branch coverage is off. No other variable changes.
\<close>

lemma set_env_values:
  assumes "cov self = Some c"
  shows "\<exists>self'. set_env w self = Inr self' \<and>
           environ self' ''COV_CORE_SOURCE'' =
             Some (case cov_source self of None \<Rightarrow> w_pathsep w
                   | Some srcs \<Rightarrow> join (w_pathsep w) srcs) \<and>
           environ self' ''COV_CORE_CONFIG'' =
             Some (if w_exists w (w_abspath w (cov_config self))
                   then w_abspath w (cov_config self) else w_pathsep w) \<and>
           environ self' ''COV_CORE_DATAFILE'' = Some (w_abspath w (cv_data_file c)) \<and>
           environ self' ''COV_CORE_BRANCH'' =
             (if cov_branch self then Some ''enabled'' else environ self ''COV_CORE_BRANCH'') \<and>
           {k. environ self' k \<noteq> environ self k} \<subseteq>
             {''COV_CORE_SOURCE'', ''COV_CORE_CONFIG'', ''COV_CORE_DATAFILE'', ''COV_CORE_BRANCH''}"
  using assms by (auto simp: set_env_def Let_def split: if_splits)

lemma set_env_values_example:
  "\<exists>self'. set_env ex_world ex_central_paused = Inr self' \<and>
     environ self' ''COV_CORE_SOURCE'' = Some ''/m/pkg:/m/lib'' \<and>
     environ self' ''COV_CORE_CONFIG'' = Some ''/m/.coveragerc'' \<and>
     environ self' ''COV_CORE_DATAFILE'' = Some ''/m/.coverage'' \<and>
     environ self' ''COV_CORE_BRANCH'' = Some ''enabled''"
  using set_env_values [of ex_central_paused ex_central_cov ex_world]
  by (simp add: ex_central_paused_state ex_world_def ex_abspath_def) blast

text \<open>
  Claim C6. With branch coverage off and \<^verbatim>\<open>COV_CORE_BRANCH\<close> already in the
  environment, \<^verbatim>\<open>set_env\<close> returns with \<^verbatim>\<open>COV_CORE_SOURCE\<close>, \<^verbatim>\<open>COV_CORE_CONFIG\<close>
  and \<^verbatim>\<open>COV_CORE_DATAFILE\<close> at the values the claim gives, and with
  \<^verbatim>\<open>COV_CORE_BRANCH\<close> still set to \<open>enabled\<close>: the variable is written when branch
  coverage is on and never removed when it is off, so it is not set exactly when branch
  coverage is on.
\<close>

theorem set_env_keeps_inherited_branch:
  "cov_source ex_inherited = Some [''/m/pkg''] \<and>
   cov_config ex_inherited = ''.coveragerc'' \<and>
   \<not> cov_branch ex_inherited \<and>
   environ ex_inherited ''COV_CORE_BRANCH'' = Some ''enabled'' \<and>
   set_env ex_world ex_inherited = Inr ex_inherited_set \<and>
   environ ex_inherited_set ''COV_CORE_SOURCE'' = Some ''/m/pkg'' \<and>
   environ ex_inherited_set ''COV_CORE_CONFIG'' = Some ''/m/.coveragerc'' \<and>
   environ ex_inherited_set ''COV_CORE_DATAFILE'' = Some ''/m/.coverage'' \<and>
   environ ex_inherited_set ''COV_CORE_BRANCH'' = Some ''enabled''"
  by (simp add: ex_inherited_set_def ex_inherited_def op_defs ex_defs)










subsection \<open>The worker's report\<close>

text \<open>
  Claim C5. \<^verbatim>\<open>DistWorker.finish\<close> of a started worker returns. A collocated worker
  stops and saves its session without combining and writes the one sideband key
  \<^verbatim>\<open>cov_worker_node_id\<close>; a worker that is not collocated stops, combines, saves,
  serializes its data and writes exactly \<^verbatim>\<open>cov_worker_path\<close> (its top directory),
  \<^verbatim>\<open>cov_worker_node_id\<close> and \<^verbatim>\<open>cov_worker_data\<close> (the serialized buffer).
\<close>

theorem DistWorker_finish_output:
  assumes "cov self = Some c" and "config self = Some cfg" and "is_collocated self = Some colloc"
  shows "\<exists>self' c' cfg'. DistWorker_finish w self = Inr self' \<and>
           cov self' = Some c' \<and> config self' = Some cfg' \<and>
           (if colloc
            then cv_calls c' = cv_calls c @ [CStop, CSave] \<and>
                 workeroutput cfg' = (workeroutput cfg)(''cov_worker_node_id'' \<mapsto> nodeid self)
            else cv_calls c' = cv_calls c @ [CStop, CCombine, CSave, CWriteFileobj] \<and>
                 workeroutput cfg' =
                   (workeroutput cfg)(''cov_worker_path'' \<mapsto> SStr (topdir self),
                                     ''cov_worker_node_id'' \<mapsto> nodeid self,
                                     ''cov_worker_data'' \<mapsto> SStr (w_dump w c')))"
  using assms by (auto simp: DistWorker_finish_def unset_env_def call_def Let_def)

theorem DistWorker_finish_output_witness:
  "(\<exists>self' c' cfg'. DistWorker_finish ex_world ex_collocated_started = Inr self' \<and>
      cov self' = Some c' \<and> config self' = Some cfg' \<and>
      cv_calls c' = [CErase, CStart, CStop, CSave] \<and>
      workeroutput cfg' = [''cov_worker_node_id'' \<mapsto> SStr ''gw0'']) \<and>
   (\<exists>self' c' cfg'. DistWorker_finish ex_worker_world ex_worker_started = Inr self' \<and>
      cov self' = Some c' \<and> config self' = Some cfg' \<and>
      cv_calls c' = [CErase, CStart, CStop, CCombine, CSave, CWriteFileobj] \<and>
      workeroutput cfg' = [''cov_worker_path'' \<mapsto> SStr ''/w'',
                           ''cov_worker_node_id'' \<mapsto> SStr ''gw1'',
                           ''cov_worker_data'' \<mapsto> SStr ''DATA''])"
  using DistWorker_finish_output [of ex_collocated_started ex_collocated_cov
      ex_config True ex_world]
    DistWorker_finish_output [of ex_worker_started ex_worker_cov
      ex_config False ex_worker_world]
  by (simp add: ex_collocated_started_state ex_worker_started_state ex_config_def
      ex_worker_world_def ex_world_def)

subsection \<open>The master's handling of worker disconnects\<close>

text \<open>
  Claim C4. When the disconnecting worker's output has no \<^verbatim>\<open>cov_worker_node_id\<close>
  (or the node has no output at all), \<^verbatim>\<open>testnodedown\<close> returns the controller with
  the node appended to \<^verbatim>\<open>failed_workers\<close> and nothing else changed: no session is
  created or saved, no source root is registered, no node descriptor is added.
\<close>

theorem testnodedown_failed_worker:
  assumes "''cov_worker_node_id'' \<notin> dom (workeroutput_or nd Map.empty)"
  shows "testnodedown w rnd self nd = Inr (self\<lparr>failed_workers := failed_workers self @ [nd]\<rparr>)"
proof -
  from assms have "workeroutput_or nd Map.empty ''cov_worker_node_id'' = None"
    by (simp add: domIff)
  then show ?thesis by (simp add: testnodedown_def Let_def)
qed

theorem testnodedown_failed_worker_witness:
  "testnodedown ex_world 7 ex_master_started ex_failed_node =
     Inr (ex_master_started\<lparr>failed_workers := failed_workers ex_master_started @ [ex_failed_node]\<rparr>)"
  using testnodedown_failed_worker [of ex_failed_node ex_world 7 ex_master_started]
  by (simp add: workeroutput_or_def ex_failed_node_def)

lemma length_str_nat: "0 < k \<Longrightarrow> n < 10 ^ k \<Longrightarrow> length (str_nat n) \<le> k"
proof (induction k arbitrary: n)
  case 0
  then show ?case by simp
next
  case (Suc k)
  show ?case
  proof (cases "n < 10")
    case True
    then show ?thesis by (subst str_nat.simps) simp
  next
    case False
    then have k: "0 < k" using Suc.prems by (cases k) auto
    have "n div 10 < 10 ^ k" using Suc.prems by (simp add: less_mult_imp_div_less mult.commute)
    then have "length (str_nat (n div 10)) \<le> k" using Suc.IH k by simp
    then show ?thesis using False by (subst str_nat.simps) simp
  qed
qed

lemma length_fmt_06d: "rnd \<le> 999999 \<Longrightarrow> length (fmt_06d rnd) = 6"
proof -
  assume "rnd \<le> 999999"
  then have "rnd < 10 ^ 6" by simp
  then have "length (str_nat rnd) \<le> 6" using length_str_nat [of 6 rnd] by simp
  then show ?thesis by (simp add: fmt_06d_def)
qed

text \<open>
  Claim C8. When a worker reports a dataset payload, \<^verbatim>\<open>testnodedown\<close> saves a session
  whose suffix is the master's hostname, the master's process id, the random integer
  and the worker's node identifier, in that order and separated by dots, the random
  part zero-padded to six characters. For a fixed hostname, process id and random
  value two node identifiers give the same suffix only if they are rendered as the
  same string; in particular two distinct identifier strings give distinct suffixes.
\<close>

theorem data_suffix_distinct:
  assumes "rnd \<le> 999999"
    and "node_workeroutput nd = Some out"
    and "out ''cov_worker_node_id'' = Some node_id"
    and "out ''cov_worker_data'' = Some payload"
    and "out ''cov_worker_path'' = Some path"
    and "cov self = Some sc"
    and "cv_paths_source sc = Some ps"
  shows "(\<exists>self'. testnodedown w rnd self nd = Inr self' \<and>
            map cv_data_suffix (worker_covs self') =
              map cv_data_suffix (worker_covs self) @
                [Suffix (data_suffix (w_hostname w) (w_pid w) rnd node_id)]) \<and>
         data_suffix host p rnd node_id =
           host @ ''.'' @ str_nat p @ ''.'' @ fmt_06d rnd @ ''.'' @ py_str node_id \<and>
         fmt_06d rnd = replicate (6 - length (str_nat rnd)) (CHR ''0'') @ str_nat rnd \<and>
         length (fmt_06d rnd) = 6 \<and>
         (data_suffix host p rnd a = data_suffix host p rnd b \<longleftrightarrow> py_str a = py_str b) \<and>
         (x \<noteq> y \<longrightarrow> data_suffix host p rnd (SStr x) \<noteq> data_suffix host p rnd (SStr y))"
proof -
  have run: "\<exists>self'. testnodedown w rnd self nd = Inr self' \<and>
            map cv_data_suffix (worker_covs self') =
              map cv_data_suffix (worker_covs self) @
                [Suffix (data_suffix (w_hostname w) (w_pid w) rnd node_id)]"
    using assms(2-7)
    by (simp add: testnodedown_def workeroutput_or_def Let_def Coverage_def call_def)
  have len: "length (fmt_06d rnd) = 6" using assms(1) by (rule length_fmt_06d)
  show ?thesis using run len by (simp add: data_suffix_def fmt_06d_def)
qed

theorem data_suffix_distinct_witness:
  "(\<exists>self'. testnodedown ex_world 42 ex_master_started ex_node2 = Inr self' \<and>
      map cv_data_suffix (worker_covs self') = [Suffix ''A.4242.000042.gw1'']) \<and>
   data_suffix ''A'' 4242 42 (SStr ''gw1'') = ''A.4242.000042.gw1'' \<and>
   length (fmt_06d 42) = 6 \<and>
   data_suffix ''A'' 4242 42 (SStr ''gw0'') \<noteq> data_suffix ''A'' 4242 42 (SStr ''gw1'')"
  using data_suffix_distinct [of 42 ex_node2
      "[''cov_worker_path'' \<mapsto> SStr ''/w'', ''cov_worker_node_id'' \<mapsto> SStr ''gw1'',
        ''cov_worker_data'' \<mapsto> SStr ''DATA'']" "SStr ''gw1''" "SStr ''DATA''" "SStr ''/w''"
      ex_master_started ex_master_cov "[SStr ''/m'']" ex_world
      "''A''" 4242 "SStr ''gw0''" "SStr ''gw1''" "''gw0''" "''gw1''"]
  by (simp add: ex_master_started_state ex_node2_def ex_suffixes ex_world_def)

lemma DistMaster_start_ready:
  assumes "config self = Some cfg"
  shows "\<exists>s1 c ps cc. DistMaster_start w self = Inr s1 \<and> node_descs s1 = node_descs self \<and>
           cov s1 = Some c \<and> cv_paths_source c = Some ps \<and> combining_cov s1 = Some cc"
  using assms by (simp add: DistMaster_start_def Let_def)

lemma testnodedown_collocated:
  assumes "node_workeroutput nd = Some out"
    and "out ''cov_worker_node_id'' = Some node_id"
    and "out ''cov_worker_data'' = None"
  shows "testnodedown w rnd self nd =
           Inr (self\<lparr>node_descs := insert (get_node_desc (rinfo_platform nd) (rinfo_version_info nd))
                                      (node_descs self)\<rparr>)"
  using assms by (simp add: testnodedown_def workeroutput_or_def Let_def)

lemma testnodedown_remote:
  assumes "node_workeroutput nd = Some out"
    and "out ''cov_worker_node_id'' = Some node_id"
    and "out ''cov_worker_data'' = Some payload"
    and "out ''cov_worker_path'' = Some path"
    and "cov self = Some c"
    and "cv_paths_source c = Some ps"
  shows "\<exists>s' c'. testnodedown w rnd self nd = Inr s' \<and>
           node_descs s' = insert (get_node_desc (rinfo_platform nd) (rinfo_version_info nd))
                             (node_descs self) \<and>
           cov s' = Some c' \<and> cv_paths_source c' = Some (ps @ [path]) \<and>
           combining_cov s' = combining_cov self"
  using assms by (simp add: testnodedown_def workeroutput_or_def Let_def)

lemma DistMaster_finish_node_descs:
  assumes "cov self = Some c" and "combining_cov self = Some cc"
  shows "\<exists>s'. DistMaster_finish self = Inr s' \<and> node_descs s' = node_descs self"
  using assms by (simp add: DistMaster_finish_def Let_def)

lemma testnodesdown_two:
  assumes "testnodedown w r1 s1 n1 = Inr s2" and "testnodedown w r2 s2 n2 = Inr s3"
  shows "testnodesdown w s1 [(r1, n1), (r2, n2)] = Inr s3"
  using assms by simp

lemma ex_runs:
  "master_run ex_world ex_master [] = Inr ex_run_alone"
  "master_run ex_world ex_master [(42, ex_node2)] = Inr ex_run_remote"
  "master_run ex_world ex_master [(7, ex_node3), (42, ex_node2)] = Inr ex_run_other"
  by (simp_all add: ex_run_alone_def ex_run_remote_def ex_run_other_def master_run_def
      testnodedown_def workeroutput_or_def ex_node2_def ex_node3_def op_defs ex_defs)

lemma ex_master_desc:
  "get_node_desc (w_platform ex_world) (w_version_info ex_world) =
     ''platform linux, python 3.6.5-final-0''"
  by (simp add: ex_world_def ex_descs)

lemma ex_run_descs:
  "node_descs ex_run_alone = {}"
  "node_descs ex_run_remote = {''platform darwin, python 3.6.5-final-0''}"
  "node_descs ex_run_other = {''platform win32, python 3.6.5-final-0'',
                              ''platform darwin, python 3.6.5-final-0''}"
  by (auto simp: ex_run_alone_def ex_run_remote_def ex_run_other_def master_run_def
      testnodedown_def workeroutput_or_def ex_node2_def ex_node3_def op_defs ex_defs ex_descs)

text \<open>
  Claim C9 as stated fails in its account of where the entries come from: the master's
  own run contributes no descriptor. A master run with no worker ends with an empty
  set, a run with the remote worker alone ends with that worker's descriptor only, and
  in a run with a collocated worker on another platform the master's own descriptor is
  not in the final set.
\<close>

theorem master_contributes_no_desc_counterexample:
  "master_run ex_world ex_master [] = Inr ex_run_alone \<and>
   node_descs ex_run_alone = {} \<and>
   master_run ex_world ex_master [(42, ex_node2)] = Inr ex_run_remote \<and>
   node_descs ex_run_remote = {''platform darwin, python 3.6.5-final-0''} \<and>
   master_run ex_world ex_master [(7, ex_node3), (42, ex_node2)] = Inr ex_run_other \<and>
   get_node_desc (w_platform ex_world) (w_version_info ex_world) =
     ''platform linux, python 3.6.5-final-0'' \<and>
   ''platform linux, python 3.6.5-final-0'' \<notin> node_descs ex_run_other"
  by (simp add: ex_runs ex_run_descs ex_master_desc)

text \<open>
  Claim C9, amended. A master with no descriptors yet runs \<^verbatim>\<open>start\<close>, handles the
  disconnect of a collocated worker (node identifier only) and of a worker that is not
  collocated (node identifier, top directory and payload), then runs \<^verbatim>\<open>finish\<close>.
  The run returns and the master's set of node descriptors consists of the two
  workers' descriptors: exactly two entries when they are distinct (as when the
  collocated worker's is identical to the master's own and the remote worker's is not),
  one when they are identical. The master's own run contributes none: with no
  disconnect handled the run returns with the set as it was.
\<close>

theorem master_run_node_descs:
  assumes "config self = Some cfg"
    and "node_descs self = {}"
    and "node_workeroutput n1 = Some out1"
    and "out1 ''cov_worker_node_id'' = Some id1"
    and "out1 ''cov_worker_data'' = None"
    and "node_workeroutput n2 = Some out2"
    and "out2 ''cov_worker_node_id'' = Some id2"
    and "out2 ''cov_worker_data'' = Some payload"
    and "out2 ''cov_worker_path'' = Some path"
  shows "(\<exists>self'. master_run w self [(r1, n1), (r2, n2)] = Inr self' \<and>
            node_descs self' = {get_node_desc (rinfo_platform n1) (rinfo_version_info n1),
                                get_node_desc (rinfo_platform n2) (rinfo_version_info n2)} \<and>
            card (node_descs self') =
              (if get_node_desc (rinfo_platform n1) (rinfo_version_info n1) =
                  get_node_desc (rinfo_platform n2) (rinfo_version_info n2)
               then 1 else 2)) \<and>
         (\<exists>self'. master_run w self [] = Inr self' \<and> node_descs self' = {})"
proof -
  let ?d1 = "get_node_desc (rinfo_platform n1) (rinfo_version_info n1)"
  let ?d2 = "get_node_desc (rinfo_platform n2) (rinfo_version_info n2)"
  from DistMaster_start_ready [OF assms(1)] obtain s1 c ps cc where
    s1: "DistMaster_start w self = Inr s1" "node_descs s1 = node_descs self"
      "cov s1 = Some c" "cv_paths_source c = Some ps" "combining_cov s1 = Some cc"
    by blast
  define s2 where "s2 = s1\<lparr>node_descs := insert ?d1 (node_descs s1)\<rparr>"
  have t1: "testnodedown w r1 s1 n1 = Inr s2"
    unfolding s2_def using assms(3-5) by (rule testnodedown_collocated)
  have s2: "cov s2 = Some c" "combining_cov s2 = Some cc" "node_descs s2 = {?d1}"
    using s1 assms(2) by (simp_all add: s2_def)
  from testnodedown_remote [OF assms(6-9) s2(1) s1(4)] obtain s3 c3 where
    s3: "testnodedown w r2 s2 n2 = Inr s3" "node_descs s3 = insert ?d2 (node_descs s2)"
      "cov s3 = Some c3" "combining_cov s3 = combining_cov s2"
    by blast
  from DistMaster_finish_node_descs [of s3 c3 cc] s3 s2 obtain s4 where
    s4: "DistMaster_finish s3 = Inr s4" "node_descs s4 = node_descs s3"
    by auto
  have run: "master_run w self [(r1, n1), (r2, n2)] = Inr s4"
    using s1(1) testnodesdown_two [OF t1 s3(1)] s4(1) by (simp add: master_run_def)
  have descs: "node_descs s4 = {?d1, ?d2}"
    using s4(2) s3(2) s2(3) by auto
  have cardd: "card (node_descs s4) = (if ?d1 = ?d2 then 1 else 2)"
    using descs by simp
  from DistMaster_finish_node_descs [OF s1(3) s1(5)] obtain s0 where
    s0: "DistMaster_finish s1 = Inr s0" "node_descs s0 = node_descs s1"
    by blast
  have alone: "master_run w self [] = Inr s0"
    using s1(1) s0(1) by (simp add: master_run_def)
  have "node_descs s0 = {}" using s0(2) s1(2) assms(2) by simp
  with alone run descs cardd show ?thesis by blast
qed

theorem master_run_node_descs_witness:
  "(\<exists>self'. master_run ex_world ex_master [(7, ex_node1), (42, ex_node2)] = Inr self' \<and>
      node_descs self' = {''platform linux, python 3.6.5-final-0'',
                          ''platform darwin, python 3.6.5-final-0''} \<and>
      card (node_descs self') = 2) \<and>
   (\<exists>self'. master_run ex_world ex_master [] = Inr self' \<and> node_descs self' = {})"
  using master_run_node_descs [of ex_master ex_config ex_node1
      "[''cov_worker_node_id'' \<mapsto> SStr ''gw0'']" "SStr ''gw0''" ex_node2
      "[''cov_worker_path'' \<mapsto> SStr ''/w'', ''cov_worker_node_id'' \<mapsto> SStr ''gw1'',
        ''cov_worker_data'' \<mapsto> SStr ''DATA'']" "SStr ''gw1''" "SStr ''DATA''" "SStr ''/w''"
      ex_world 7 42]
  by (simp add: ex_master_def init_def ex_node1_def ex_node2_def ex_descs)

subsection \<open>The fallback separator line\<close>

text \<open>
  Claim C10. For a stream without a \<^verbatim>\<open>sep\<close> attribute, a separator character \<open>c\<close>
  and a title \<open>txt\<close>, \<^verbatim>\<open>CovController.sep\<close> writes one line: a run of \<open>l\<close>
  separators, a blank, the title, a blank, a run of \<open>r\<close> separators and a newline.
  Without the newline the line is \<open>max 70 (length txt + 4)\<close> characters long; the two
  runs differ by at most one, and the right one is the longer exactly when the
  padding is odd.
\<close>

theorem sep_fallback_length:
  assumes "\<not> has_sep strm"
  shows "\<exists>l r. written (sep strm [c] txt) =
           written strm @ [replicate l c @ '' '' @ txt @ '' '' @ replicate r c @ [CHR 0x0A]] \<and>
         int (l + 1 + length txt + 1 + r) = max 70 (int (length txt) + 4) \<and>
         l \<le> r \<and> r \<le> l + 1 \<and> (r = l + 1 \<longleftrightarrow> odd (l + r))"
proof -
  define t where "t = max (70 - 2 - int (length txt)) 2"
  have t2: "2 \<le> t" by (simp add: t_def)
  have rep: "py_mul [c] n = replicate (nat n) c" for n
    by (simp add: py_mul_def)
  let ?l = "nat (t div 2)" and ?r = "nat (t div 2 + t mod 2)"
  have w: "written (sep strm [c] txt) =
           written strm @ [replicate ?l c @ '' '' @ txt @ '' '' @ replicate ?r c @ [CHR 0x0A]]"
    using assms by (simp add: sep_def Let_def rep t_def)
  have len: "int (?l + 1 + length txt + 1 + ?r) = max 70 (int (length txt) + 4)"
    using t2 unfolding t_def by (simp; linarith)
  have ord: "?l \<le> ?r" "?r \<le> ?l + 1" using t2 by (simp_all; linarith)+
  have par: "?r = ?l + 1 \<longleftrightarrow> odd (?l + ?r)"
  proof (cases "t mod 2 = 0")
    case True
    then show ?thesis by simp
  next
    case False
    then have m: "t mod 2 = 1" by presburger
    have "0 \<le> t div 2" using t2 by simp
    then have "?r = ?l + 1" using m by (simp add: nat_add_distrib)
    then show ?thesis by simp
  qed
  show ?thesis using w len ord par by blast
qed

theorem sep_fallback_length_witness:
  "\<exists>l r. written (sep ex_stream ''-'' ''coverage'') =
           written ex_stream @
             [replicate l (CHR ''-'') @ '' '' @ ''coverage'' @ '' '' @ replicate r (CHR ''-'') @
              [CHR 0x0A]] \<and>
         int (l + 1 + length ''coverage'' + 1 + r) = max 70 (int (length ''coverage'') + 4) \<and>
         l \<le> r \<and> r \<le> l + 1 \<and> (r = l + 1 \<longleftrightarrow> odd (l + r))"
  using sep_fallback_length [of ex_stream "CHR ''-''" "''coverage''"]
  by (simp add: ex_stream_def)

end
